theory Spec2Isabelle
  imports Main "HOL-Library.Word"
begin

section \<open>Strings, formatting and the output stream\<close>

text \<open>
  A Go string is a sequence of bytes, and so is a \<^typ>\<open>string\<close> here. The format verbs
  the package uses are \<open>%s\<close>, which splices a string in, and \<open>%d\<close>, which prints a signed
  integer in decimal; \<open>fmt.Sprintf\<close> is written out as concatenation at each call.
\<close>

definition lower_byte :: "char \<Rightarrow> char" where
  "lower_byte c =
     (let n = of_char c :: nat in if 65 \<le> n \<and> n \<le> 90 then char_of (n + 32) else c)"

text \<open>
  \<open>strings.ToLower\<close>. The package applies it to the declared field names of a struct
  only, which are ASCII, where it maps the bytes \<open>A\<close> to \<open>Z\<close> to \<open>a\<close> to \<open>z\<close> and
  leaves every other byte alone.
\<close>

definition ToLower :: "string \<Rightarrow> string" where
  "ToLower s = map lower_byte s"

fun digits :: "nat \<Rightarrow> string" where
  "digits n =
     (if n < 10 then [char_of (48 + n)] else digits (n div 10) @ [char_of (48 + n mod 10)])"

declare digits.simps [simp del]

text \<open>The verb \<open>%d\<close>: a minus sign for a negative value, then the decimal digits.\<close>

definition FormatInt :: "int \<Rightarrow> string" where
  "FormatInt i = (if i < 0 then CHR ''-'' # digits (nat (- i)) else digits (nat i))"

text \<open>
  \<open>io.WriteString(w, s)\<close> hands the bytes of \<open>s\<close> to the stream in one call and gives
  back the stream's error (the byte count is dropped at every call site). A stream is
  any state \<open>'w\<close> with such an operation; \<open>None\<close> is Go's \<open>nil\<close> error. The stream is
  the caller's: it is assumed not to reach into the graph objects.
\<close>

type_synonym ('e, 'w) WriteString = "'w \<Rightarrow> string \<Rightarrow> 'e option \<times> 'w"

text \<open>A stream that accepts everything, as \<open>bytes.Buffer\<close> does: the state is the bytes so far.\<close>

definition buffer_write :: "('e, string) WriteString" where
  "buffer_write b s = (None, b @ s)"

text \<open>
  A stream that follows a script, one reply per call: accept the bytes, or take the first
  \<open>n\<close> of them and fail with an error. When the script is over it accepts.
\<close>

datatype 'e reply = Accept | Reject nat 'e

fun scripted_write :: "('e, string \<times> 'e reply list) WriteString" where
  "scripted_write (out, []) s = (None, (out @ s, []))"
| "scripted_write (out, Accept # rs) s = (None, (out @ s, rs))"
| "scripted_write (out, Reject n e # rs) s = (Some e, (out @ take n s, rs))"

datatype io_error = ErrShortWrite | ErrClosedPipe

section \<open>The data model\<close>

text \<open>
  Every element of a graph body is a pointer (\<open>*Literal\<close>, \<open>*VertexDescription\<close>,
  \<open>*EdgeDescription\<close>, \<open>*Graph\<close>) held in an \<open>Element\<close> interface value. The objects
  live in a store, one table per struct type; a pointer is an index into the table of its
  type. Go has one pointer with no object behind it, \<open>nil\<close>; here that is an index past
  the end of the table (the tables only grow, so it is meant past every allocation of the
  run at hand). A \<open>nil\<close> interface value in a body behaves as a \<open>nil\<close> pointer does:
  calling \<open>Write\<close> on it panics.
\<close>

type_synonym addr = nat

record Literal =
  Line :: string

record VertexDescription =
  ID :: string
  Label :: string
  Group :: string
  Color :: string
  Style :: string
  ColorScheme :: string
  FontColor :: string
  FontName :: string
  Shape :: string
  Peripheries :: "64 word"

text \<open>
  Field names of records are global, so the \<open>Style\<close> field of \<open>EdgeDescription\<close>
  is \<open>EdgeStyle\<close> here. \<open>From\<close> and \<open>To\<close> are struct values, not pointers.
\<close>

record EdgeDescription =
  From :: VertexDescription
  To :: VertexDescription
  Directed :: bool
  EdgeStyle :: string

datatype Element =
    LiteralPtr addr
  | VertexPtr addr
  | EdgePtr addr
  | GraphPtr addr

record Graph =
  Name :: string
  Body :: "Element list"
  IsSubGraph :: bool
  Rank :: string

record store =
  literals :: "Literal list"
  vertices :: "VertexDescription list"
  edges :: "EdgeDescription list"
  graphs :: "Graph list"

definition empty_store :: store where
  "empty_store = \<lparr>literals = [], vertices = [], edges = [], graphs = []\<rparr>"

definition deref :: "'a list \<Rightarrow> addr \<Rightarrow> 'a option" where
  "deref objs p = (if p < length objs then Some (objs ! p) else None)"

text \<open>
  A call either panics (a \<open>nil\<close> dereference) or finishes with a value; for the
  \<open>Write\<close> methods the value is the returned error.
\<close>

datatype 'a run = Panic | Done 'a

section \<open>Literal\<close>

definition Literal_Write ::
  "('e, 'w) WriteString \<Rightarrow> store \<Rightarrow> addr \<Rightarrow> 'w \<Rightarrow> 'e option run \<times> store \<times> 'w" where
  "Literal_Write ws h lit w =
     (case deref (literals h) lit of
        None \<Rightarrow> (Panic, h, w)
      | Some l \<Rightarrow> (let (err, w') = ws w (Line l) in (Done err, h, w')))"

section \<open>VertexDescription\<close>

definition NewVertexDescription :: "string \<Rightarrow> VertexDescription" where
  "NewVertexDescription ident =
     \<lparr>ID = ident, Label = [], Group = [], Color = [], Style = [], ColorScheme = [],
      FontColor = [], FontName = [], Shape = [], Peripheries = 0\<rparr>"

text \<open>
  What \<open>reflect.ValueOf(*v)\<close> enumerates: the fields of the struct in declaration order,
  each with its declared name and with its value tagged by its kind.
\<close>

datatype field = StringField string | IntField "64 word"

definition reflect_fields :: "VertexDescription \<Rightarrow> (string \<times> field) list" where
  "reflect_fields v =
     [(''ID'', StringField (ID v)),
      (''Label'', StringField (Label v)),
      (''Group'', StringField (Group v)),
      (''Color'', StringField (Color v)),
      (''Style'', StringField (Style v)),
      (''ColorScheme'', StringField (ColorScheme v)),
      (''FontColor'', StringField (FontColor v)),
      (''FontName'', StringField (FontName v)),
      (''Shape'', StringField (Shape v)),
      (''Peripheries'', IntField (Peripheries v))]"

text \<open>One round of the loop over the fields: what it appends to \<open>nodeStr\<close>.\<close>

fun field_attr :: "string \<times> field \<Rightarrow> string" where
  \<open>field_attr (fname, StringField val) =
     (let name = ToLower fname in
      if val \<noteq> [] then
        (if hd val = CHR ''<'' then name @ ''='' @ val @ '' ''
         else name @ ''="'' @ val @ ''" '')
      else [])\<close>
| \<open>field_attr (fname, IntField val) =
     (let name = ToLower fname in
      if val \<noteq> 0 then name @ ''="'' @ FormatInt (sint val) @ ''" '' else [])\<close>

primrec fields_loop :: "string \<Rightarrow> (string \<times> field) list \<Rightarrow> string" where
  "fields_loop nodeStr [] = nodeStr"
| "fields_loop nodeStr (f # fs) = fields_loop (nodeStr @ field_attr f) fs"

text \<open>The string \<open>VertexDescription.Write\<close> builds; the loop starts at field 1, after the ID.\<close>

definition nodeStr :: "VertexDescription \<Rightarrow> string" where
  "nodeStr v = fields_loop ((ID v @ '' '') @ ''['') (drop 1 (reflect_fields v)) @ '']''"

definition VertexDescription_Write ::
  "('e, 'w) WriteString \<Rightarrow> store \<Rightarrow> addr \<Rightarrow> 'w \<Rightarrow> 'e option run \<times> store \<times> 'w" where
  "VertexDescription_Write ws h v w =
     (case deref (vertices h) v of
        None \<Rightarrow> (Panic, h, w)
      | Some vd \<Rightarrow> (let (err, w') = ws w (nodeStr vd) in (Done err, h, w')))"

section \<open>EdgeDescription\<close>

definition edgeStr :: "EdgeDescription \<Rightarrow> string" where
  \<open>edgeStr e =
     (let arrow = (if Directed e then ''->'' else ''--'');
          edgeStr = ID (From e) @ '' '' @ arrow @ '' '' @ ID (To e)
      in if EdgeStyle e \<noteq> [] then edgeStr @ '' [ style="'' @ EdgeStyle e @ ''" ]''
         else edgeStr)\<close>

definition EdgeDescription_Write ::
  "('e, 'w) WriteString \<Rightarrow> store \<Rightarrow> addr \<Rightarrow> 'w \<Rightarrow> 'e option run \<times> store \<times> 'w" where
  "EdgeDescription_Write ws h e w =
     (case deref (edges h) e of
        None \<Rightarrow> (Panic, h, w)
      | Some ed \<Rightarrow> (let (err, w') = ws w (edgeStr ed) in (Done err, h, w')))"

section \<open>Graph: construction\<close>

definition NewGraph :: "string \<Rightarrow> Graph" where
  "NewGraph name = \<lparr>Name = name, Body = [], IsSubGraph = False, Rank = []\<rparr>"

text \<open>\<open>graph.Body = append(graph.Body, line)\<close>, through the receiver pointer.\<close>

definition append_Body :: "store \<Rightarrow> addr \<Rightarrow> Element \<Rightarrow> store run" where
  "append_Body h graph line =
     (case deref (graphs h) graph of
        None \<Rightarrow> Panic
      | Some g \<Rightarrow> Done (h\<lparr>graphs := (graphs h)[graph := g\<lparr>Body := Body g @ [line]\<rparr>]\<rparr>))"

definition AddComment :: "store \<Rightarrow> addr \<Rightarrow> string \<Rightarrow> store run" where
  "AddComment h graph comment =
     (let commentStr = ''/* '' @ comment @ '' */'';
          line = length (literals h);
          h1 = h\<lparr>literals := literals h @ [\<lparr>Line = commentStr\<rparr>]\<rparr>
      in append_Body h1 graph (LiteralPtr line))"

definition AddNewLine :: "store \<Rightarrow> addr \<Rightarrow> store run" where
  "AddNewLine h graph =
     (let line = length (literals h);
          h1 = h\<lparr>literals := literals h @ [\<lparr>Line = []\<rparr>]\<rparr>
      in append_Body h1 graph (LiteralPtr line))"

definition AddVertex :: "store \<Rightarrow> addr \<Rightarrow> addr \<Rightarrow> store run" where
  "AddVertex h graph v = append_Body h graph (VertexPtr v)"

text \<open>
  The composite literal reads \<open>*v1\<close> and \<open>*v2\<close>, so the new edge holds the two
  structs as they are at the call; the edge is a fresh object, at the next free index.
\<close>

definition AddEdge :: "store \<Rightarrow> addr \<Rightarrow> addr \<Rightarrow> addr \<Rightarrow> bool \<Rightarrow> string \<Rightarrow> store run" where
  "AddEdge h graph v1 v2 directed style =
     (case deref (vertices h) v1 of
        None \<Rightarrow> Panic
      | Some from \<Rightarrow>
          (case deref (vertices h) v2 of
             None \<Rightarrow> Panic
           | Some to \<Rightarrow>
               (let edge = length (edges h);
                    h1 = h\<lparr>edges := edges h @
                           [\<lparr>From = from, To = to, Directed = directed, EdgeStyle = style\<rparr>]\<rparr>
                in append_Body h1 graph (EdgePtr edge))))"

definition AddSubGraph :: "store \<Rightarrow> addr \<Rightarrow> addr \<Rightarrow> store run" where
  "AddSubGraph h graph sGraph = append_Body h graph (GraphPtr sGraph)"

text \<open>
  What the caller does around the package: declare a variable holding a struct and take
  its address, and assign to a struct through a pointer.
\<close>

definition new_vertex :: "store \<Rightarrow> VertexDescription \<Rightarrow> addr \<times> store" where
  "new_vertex h vd = (length (vertices h), h\<lparr>vertices := vertices h @ [vd]\<rparr>)"

definition new_graph :: "store \<Rightarrow> Graph \<Rightarrow> addr \<times> store" where
  "new_graph h g = (length (graphs h), h\<lparr>graphs := graphs h @ [g]\<rparr>)"

definition assign_vertex :: "store \<Rightarrow> addr \<Rightarrow> VertexDescription \<Rightarrow> store" where
  "assign_vertex h v vd = h\<lparr>vertices := (vertices h)[v := vd]\<rparr>"

definition assign_graph :: "store \<Rightarrow> addr \<Rightarrow> Graph \<Rightarrow> store" where
  "assign_graph h graph g = h\<lparr>graphs := (graphs h)[graph := g]\<rparr>"

text \<open>A run of assignments through vertex pointers, in order.\<close>

definition assign_vertices :: "store \<Rightarrow> (addr \<times> VertexDescription) list \<Rightarrow> store" where
  "assign_vertices h ms = foldl (\<lambda>s (v, vd). assign_vertex s v vd) h ms"

section \<open>Graph: serialization\<close>

text \<open>
  \<open>Graph.Write\<close> calls \<open>line.Write(w)\<close> on every element of the body, and for a
  nested graph that is \<open>Graph.Write\<close> again, through a pointer. Nothing keeps a graph
  out of its own body, so the recursion need not end; the model counts the nesting depth
  it may still enter, and \<open>None\<close> says that the depth was not enough.

  The dispatch of \<open>line.Write(w)\<close> takes the method of \<open>*Graph\<close> as its first argument.
\<close>

type_synonym ('e, 'w) Write =
  "store \<Rightarrow> addr \<Rightarrow> 'w \<Rightarrow> ('e option run \<times> store \<times> 'w) option"

fun Element_Write ::
  "('e, 'w) Write \<Rightarrow> ('e, 'w) WriteString \<Rightarrow> store \<Rightarrow> Element \<Rightarrow> 'w
     \<Rightarrow> ('e option run \<times> store \<times> 'w) option" where
  "Element_Write gw ws h (LiteralPtr p) w = Some (Literal_Write ws h p w)"
| "Element_Write gw ws h (VertexPtr p) w = Some (VertexDescription_Write ws h p w)"
| "Element_Write gw ws h (EdgePtr p) w = Some (EdgeDescription_Write ws h p w)"
| "Element_Write gw ws h (GraphPtr p) w = gw h p w"

text \<open>
  The loop over the body. Its result is \<open>Some r\<close> when the loop makes \<open>Graph.Write\<close>
  return (or panic) with \<open>r\<close>, and \<open>None\<close> when it runs to its end.
\<close>

fun body_loop ::
  "('e, 'w) Write \<Rightarrow> ('e, 'w) WriteString \<Rightarrow> Element list \<Rightarrow> store \<Rightarrow> 'w
     \<Rightarrow> ('e option run option \<times> store \<times> 'w) option" where
  "body_loop gw ws [] h w = Some (None, h, w)"
| "body_loop gw ws (line # rest) h w =
     (case Element_Write gw ws h line w of
        None \<Rightarrow> None
      | Some (Panic, h1, w1) \<Rightarrow> Some (Some Panic, h1, w1)
      | Some (Done err, h1, w1) \<Rightarrow>
          (let (err2, w2) = ws w1 ''\<newline>'' in
           if err \<noteq> None \<or> err2 \<noteq> None then Some (Some (Done err), h1, w2)
           else body_loop gw ws rest h1 w2))"

text \<open>The loop and what follows it: the closing brace.\<close>

definition Write_body ::
  "('e, 'w) Write \<Rightarrow> ('e, 'w) WriteString \<Rightarrow> Element list \<Rightarrow> store \<Rightarrow> 'w
     \<Rightarrow> ('e option run \<times> store \<times> 'w) option" where
  "Write_body gw ws body h w =
     (case body_loop gw ws body h w of
        None \<Rightarrow> None
      | Some (Some r, h', w') \<Rightarrow> Some (r, h', w')
      | Some (None, h', w') \<Rightarrow> (let (err, w'') = ws w' ''}'' in Some (Done err, h', w'')))"

definition title :: "Graph \<Rightarrow> string" where
  "title g =
     (if IsSubGraph g then ''subgraph '' @ Name g @ '' {\<newline>''
      else ''digraph '' @ Name g @ '' {\<newline>'')"

primrec Graph_Write ::
  "nat \<Rightarrow> ('e, 'w) WriteString \<Rightarrow> store \<Rightarrow> addr \<Rightarrow> 'w
     \<Rightarrow> ('e option run \<times> store \<times> 'w) option" where
  "Graph_Write 0 ws h graph w = None"
| \<open>Graph_Write (Suc depth) ws h graph w =
     (case deref (graphs h) graph of
        None \<Rightarrow> Some (Panic, h, w)
      | Some g \<Rightarrow>
          (let (err, w1) = ws w (title g) in
           if err \<noteq> None then Some (Done err, h, w1)
           else if Rank g \<noteq> [] then
             (let (err, w2) = ws w1 (''rank'' @ ''="'' @ Rank g @ ''"\<newline>'') in
              if err \<noteq> None then Some (Done err, h, w2)
              else Write_body (Graph_Write depth ws) ws (Body g) h w2)
           else Write_body (Graph_Write depth ws) ws (Body g) h w1))\<close>

section \<open>The specification's words\<close>

text \<open>
  The rendering of one string attribute as the specification words it: nothing when the
  value is empty, \<open>name=value\<close> when the value begins with \<open><\<close>, and
  \<open>name="value"\<close> otherwise, each followed by the single space that separates
  attributes.
\<close>

definition spec_string_attr :: "string \<Rightarrow> string \<Rightarrow> string" where
  \<open>spec_string_attr name val =
     (if val = [] then []
      else if hd val = CHR ''<'' then name @ ''='' @ val @ '' ''
      else name @ ''="'' @ val @ ''" '')\<close>

text \<open>
  The number a decimal numeral stands for: the digits read from the left in base ten, with a
  leading minus sign negating the value.
\<close>

definition decimal_nat :: "string \<Rightarrow> nat" where
  "decimal_nat s = foldl (\<lambda>a c. 10 * a + (of_char c - 48)) 0 s"

definition decimal_value :: "string \<Rightarrow> int" where
  "decimal_value s =
     (case s of
        [] \<Rightarrow> 0
      | c # ds \<Rightarrow> if c = CHR ''-'' then - int (decimal_nat ds) else int (decimal_nat s))"

section \<open>Example objects\<close>

definition one_vertex :: "VertexDescription \<Rightarrow> store" where
  "one_vertex vd = \<lparr>literals = [], vertices = [vd], edges = [], graphs = []\<rparr>"

definition one_edge :: "EdgeDescription \<Rightarrow> store" where
  "one_edge ed = \<lparr>literals = [], vertices = [], edges = [ed], graphs = []\<rparr>"

definition html_vertex :: VertexDescription where
  "html_vertex = (NewVertexDescription ''a'')\<lparr>Label := ''<b>x</b>'', Color := ''red''\<rparr>"

definition ringed_vertex :: VertexDescription where
  "ringed_vertex = (NewVertexDescription ''a'')\<lparr>Peripheries := - 2\<rparr>"

definition styled_edge :: EdgeDescription where
  "styled_edge = \<lparr>From = NewVertexDescription ''a'', To = html_vertex\<lparr>ID := ''b''\<rparr>,
     Directed = True, EdgeStyle = ''dashed''\<rparr>"

definition empty_graph_store :: store where
  "empty_graph_store = \<lparr>literals = [], vertices = [], edges = [], graphs = [NewGraph ''G'']\<rparr>"

definition nested_store :: store where
  "nested_store =
     \<lparr>literals = [], vertices = [NewVertexDescription ''a''], edges = [],
      graphs = [\<lparr>Name = ''G'', Body = [GraphPtr 1], IsSubGraph = False, Rank = ''same''\<rparr>,
                \<lparr>Name = ''S'', Body = [VertexPtr 0], IsSubGraph = True, Rank = []\<rparr>]\<rparr>"

definition comment_store :: store where
  "comment_store =
     \<lparr>literals = [\<lparr>Line = ''/* hello */''\<rparr>], vertices = [], edges = [],
      graphs = [\<lparr>Name = ''G'', Body = [LiteralPtr 0], IsSubGraph = False, Rank = []\<rparr>]\<rparr>"

definition two_line_store :: store where
  "two_line_store =
     \<lparr>literals = [\<lparr>Line = []\<rparr>, \<lparr>Line = ''/* hello */''\<rparr>], vertices = [], edges = [],
      graphs = [\<lparr>Name = ''G'', Body = [LiteralPtr 0, LiteralPtr 1], IsSubGraph = False,
                 Rank = ''same''\<rparr>]\<rparr>"

definition two_vertex_store :: store where
  "two_vertex_store =
     \<lparr>literals = [], vertices = [NewVertexDescription ''a'', NewVertexDescription ''b''],
      edges = [], graphs = [NewGraph ''G'']\<rparr>"

definition vertex_added_store :: store where
  "vertex_added_store = two_vertex_store\<lparr>graphs := [(NewGraph ''G'')\<lparr>Body := [VertexPtr 0]\<rparr>]\<rparr>"

definition edge_added_store :: store where
  "edge_added_store =
     \<lparr>literals = [], vertices = [NewVertexDescription ''a'', NewVertexDescription ''b''],
      edges = [\<lparr>From = NewVertexDescription ''a'', To = NewVertexDescription ''b'',
                Directed = True, EdgeStyle = []\<rparr>],
      graphs = [(NewGraph ''G'')\<lparr>Body := [VertexPtr 0, EdgePtr 0]\<rparr>]\<rparr>"

definition self_store :: store where
  "self_store =
     \<lparr>literals = [], vertices = [], edges = [],
      graphs = [\<lparr>Name = ''G'', Body = [GraphPtr 0], IsSubGraph = False, Rank = []\<rparr>]\<rparr>"

definition renamed_vertex :: VertexDescription where
  "renamed_vertex = (NewVertexDescription ''z'')\<lparr>Color := ''red''\<rparr>"

text \<open>The result of a call on a buffer, had the buffer held \<open>b\<close> before.\<close>

definition prepend ::
  "string \<Rightarrow> ('r \<times> store \<times> string) option \<Rightarrow> ('r \<times> store \<times> string) option" where
  "prepend b res = (case res of None \<Rightarrow> None | Some (r, h, out) \<Rightarrow> Some (r, h, b @ out))"

section \<open>Formatting lemmas\<close>

lemma of_char_digit: "(n::nat) < 10 \<Longrightarrow> (of_char (char_of (48 + n)) :: nat) = 48 + n"
  by simp

lemma decimal_nat_digits: "decimal_nat (digits n) = n"
proof (induction n rule: digits.induct)
  case (1 n)
  show ?case
  proof (cases "n < 10")
    case True
    then show ?thesis by (subst digits.simps) (simp add: decimal_nat_def)
  next
    case False
    with 1 have "decimal_nat (digits (n div 10)) = n div 10" by simp
    with False show ?thesis
      by (subst digits.simps) (simp add: decimal_nat_def)
  qed
qed

lemma digits_not_Nil: "digits n \<noteq> []"
  by (subst digits.simps) simp

lemma digit_not_minus: "(n::nat) < 10 \<Longrightarrow> char_of (48 + n) \<noteq> CHR ''-''"
proof
  assume n: "n < 10" and eq: "char_of (48 + n) = CHR ''-''"
  have "(of_char (char_of (48 + n)) :: nat) = of_char (CHR ''-'')" using eq by simp
  with n show False by simp
qed

lemma hd_digits: "hd (digits n) \<noteq> CHR ''-''"
proof (induction n rule: digits.induct)
  case (1 n)
  show ?case
  proof (cases "n < 10")
    case True
    then show ?thesis by (subst digits.simps) (simp add: digit_not_minus)
  next
    case False
    with 1 show ?thesis
      by (subst digits.simps) (simp add: digits_not_Nil)
  qed
qed

lemma decimal_value_FormatInt: "decimal_value (FormatInt i) = i"
proof (cases "i < 0")
  case True
  then show ?thesis by (simp add: decimal_value_def FormatInt_def decimal_nat_digits)
next
  case False
  obtain c cs where d: "digits (nat i) = c # cs"
    using digits_not_Nil [of "nat i"] by (cases "digits (nat i)") auto
  with hd_digits [of "nat i"] have "c \<noteq> CHR ''-''" by simp
  moreover have "decimal_nat (c # cs) = nat i" using decimal_nat_digits [of "nat i"] d by simp
  ultimately show ?thesis using False d by (simp add: decimal_value_def FormatInt_def)
qed

lemma ToLower_names:
  "ToLower ''Label'' = ''label''"
  "ToLower ''Group'' = ''group''"
  "ToLower ''Color'' = ''color''"
  "ToLower ''Style'' = ''style''"
  "ToLower ''ColorScheme'' = ''colorscheme''"
  "ToLower ''FontColor'' = ''fontcolor''"
  "ToLower ''FontName'' = ''fontname''"
  "ToLower ''Shape'' = ''shape''"
  "ToLower ''Peripheries'' = ''peripheries''"
  by code_simp+

lemma nodeStr_unfold:
  "nodeStr v = ID v @ '' ['' @
     field_attr (''Label'', StringField (Label v)) @
     field_attr (''Group'', StringField (Group v)) @
     field_attr (''Color'', StringField (Color v)) @
     field_attr (''Style'', StringField (Style v)) @
     field_attr (''ColorScheme'', StringField (ColorScheme v)) @
     field_attr (''FontColor'', StringField (FontColor v)) @
     field_attr (''FontName'', StringField (FontName v)) @
     field_attr (''Shape'', StringField (Shape v)) @
     field_attr (''Peripheries'', IntField (Peripheries v)) @ '']''"
  unfolding nodeStr_def reflect_fields_def by (simp del: field_attr.simps)

lemma fields_loop_concat: "fields_loop acc fs = acc @ concat (map field_attr fs)"
  by (induction fs arbitrary: acc) simp_all

lemma field_attr_string:
  "field_attr (fname, StringField val) = spec_string_attr (ToLower fname) val"
  by (simp add: spec_string_attr_def)

lemma FormatInt_minus_2: "FormatInt (- 2) = ''-2''"
  by code_simp

section \<open>The store under serialization\<close>

lemma Literal_Write_store: "fst (snd (Literal_Write ws h p w)) = h"
  by (simp add: Literal_Write_def split: option.splits prod.splits)

lemma VertexDescription_Write_store: "fst (snd (VertexDescription_Write ws h p w)) = h"
  by (simp add: VertexDescription_Write_def split: option.splits prod.splits)

lemma EdgeDescription_Write_store: "fst (snd (EdgeDescription_Write ws h p w)) = h"
  by (simp add: EdgeDescription_Write_def split: option.splits prod.splits)

lemma Element_Write_store:
  assumes "\<And>h p w r h' w'. gw h p w = Some (r, h', w') \<Longrightarrow> h' = h"
    and "Element_Write gw ws h line w = Some (r, h', w')"
  shows "h' = h"
proof (cases line)
  case (LiteralPtr p)
  with assms(2) Literal_Write_store [of ws h p w] show ?thesis by auto
next
  case (VertexPtr p)
  with assms(2) VertexDescription_Write_store [of ws h p w] show ?thesis by auto
next
  case (EdgePtr p)
  with assms(2) EdgeDescription_Write_store [of ws h p w] show ?thesis by auto
next
  case (GraphPtr p)
  with assms(2) have "gw h p w = Some (r, h', w')" by simp
  then show ?thesis by (rule assms(1))
qed

lemma body_loop_store:
  assumes gw: "\<And>h p w r h' w'. gw h p w = Some (r, h', w') \<Longrightarrow> h' = h"
  shows "body_loop gw ws body h w = Some (r, h', w') \<Longrightarrow> h' = h"
proof (induction body arbitrary: h w)
  case Nil
  then show ?case by simp
next
  case (Cons line rest)
  from Cons.prems obtain r1 h1 w1 where e: "Element_Write gw ws h line w = Some (r1, h1, w1)"
    by (auto split: option.splits)
  from gw e have h1: "h1 = h" by (rule Element_Write_store)
  show ?case
  proof (cases r1)
    case Panic
    with Cons.prems e h1 show ?thesis by simp
  next
    case (Done err)
    with Cons.prems e h1 Cons.IH show ?thesis
      by (auto split: prod.splits if_splits)
  qed
qed

lemma Write_body_store:
  assumes gw: "\<And>h p w r h' w'. gw h p w = Some (r, h', w') \<Longrightarrow> h' = h"
    and "Write_body gw ws body h w = Some (r, h', w')"
  shows "h' = h"
  using assms(2) body_loop_store [of gw ws body h w, OF gw]
  by (auto simp: Write_body_def split: option.splits prod.splits)

lemma Graph_Write_store: "Graph_Write depth ws h p w = Some (r, h', w') \<Longrightarrow> h' = h"
proof (induction depth arbitrary: h p w r h' w')
  case 0
  then show ?case by simp
next
  case (Suc depth)
  show ?case
  proof (cases "deref (graphs h) p")
    case None
    with Suc.prems show ?thesis by simp
  next
    case (Some g)
    have wb: "h' = h" if "Write_body (Graph_Write depth ws) ws (Body g) h w0 = Some (r, h', w')" for w0
      using Suc.IH that by (rule Write_body_store)
    from Some Suc.prems show ?thesis
      by (auto split: prod.splits if_splits dest: wb)
  qed
qed

lemma body_loop_append:
  "body_loop gw ws (pre @ post) h w =
     (case body_loop gw ws pre h w of
        None \<Rightarrow> None
      | Some (Some r, h', w') \<Rightarrow> Some (Some r, h', w')
      | Some (None, h', w') \<Rightarrow> body_loop gw ws post h' w')"
proof (induction pre arbitrary: h w)
  case Nil
  show ?case by simp
next
  case (Cons line pre)
  show ?case
    by (simp add: Cons.IH split: option.splits prod.splits run.splits)
qed

section \<open>The example stores, as the package builds them\<close>

lemma nested_store_built:
  "(let (g, h) = new_graph empty_store ((NewGraph ''G'')\<lparr>Rank := ''same''\<rparr>);
        (s, h) = new_graph h ((NewGraph ''S'')\<lparr>IsSubGraph := True\<rparr>);
        (a, h) = new_vertex h (NewVertexDescription ''a'')
    in case AddVertex h s a of Panic \<Rightarrow> Panic | Done h \<Rightarrow> AddSubGraph h g s)
   = Done nested_store"
  by (simp add: new_graph_def new_vertex_def empty_store_def NewGraph_def AddVertex_def
      AddSubGraph_def append_Body_def deref_def nested_store_def)

lemma comment_store_built:
  "(let (g, h) = new_graph empty_store (NewGraph ''G'') in AddComment h g ''hello'')
   = Done comment_store"
  by (simp add: new_graph_def empty_store_def NewGraph_def AddComment_def append_Body_def
      deref_def comment_store_def)

lemma two_line_store_built:
  "(let (g, h) = new_graph empty_store ((NewGraph ''G'')\<lparr>Rank := ''same''\<rparr>)
    in case AddNewLine h g of Panic \<Rightarrow> Panic | Done h \<Rightarrow> AddComment h g ''hello'')
   = Done two_line_store"
  by (simp add: new_graph_def empty_store_def NewGraph_def AddComment_def AddNewLine_def
      append_Body_def deref_def two_line_store_def)

lemma two_vertex_store_built:
  "(let (g, h) = new_graph empty_store (NewGraph ''G'');
        (a, h) = new_vertex h (NewVertexDescription ''a'');
        (b, h) = new_vertex h (NewVertexDescription ''b'')
    in (g, a, b, h)) = (0, 0, 1, two_vertex_store)"
  by (simp add: new_graph_def new_vertex_def empty_store_def two_vertex_store_def)

lemma self_store_built:
  "(let (g, h) = new_graph empty_store (NewGraph ''G'') in AddSubGraph h g g) = Done self_store"
  by (simp add: new_graph_def empty_store_def NewGraph_def AddSubGraph_def append_Body_def
      deref_def self_store_def)

section \<open>Serialization into a buffer\<close>

lemma prepend_simps [simp]:
  "prepend b None = None"
  "prepend b (Some (r, h, out)) = Some (r, h, b @ out)"
  by (simp_all add: prepend_def)

lemma prepend_prepend: "prepend a (prepend b res) = prepend (a @ b) res"
  by (cases res) auto

lemma buffer_write_apply:
  "fst (buffer_write b s) = None"
  "snd (buffer_write b s) = b @ s"
  by (simp_all add: buffer_write_def)

lemma Literal_Write_buffer:
  "Some (Literal_Write buffer_write h p b) = prepend b (Some (Literal_Write buffer_write h p []))"
  by (simp add: Literal_Write_def buffer_write_def split: option.splits)

lemma VertexDescription_Write_buffer:
  "Some (VertexDescription_Write buffer_write h p b)
     = prepend b (Some (VertexDescription_Write buffer_write h p []))"
  by (simp add: VertexDescription_Write_def buffer_write_def split: option.splits)

lemma EdgeDescription_Write_buffer:
  "Some (EdgeDescription_Write buffer_write h p b)
     = prepend b (Some (EdgeDescription_Write buffer_write h p []))"
  by (simp add: EdgeDescription_Write_def buffer_write_def split: option.splits)

lemma Element_Write_buffer:
  assumes gw: "\<And>h p b. gw h p b = prepend b (gw h p [])"
  shows "Element_Write gw buffer_write h line b
           = prepend b (Element_Write gw buffer_write h line [])"
proof (cases line)
  case (LiteralPtr p)
  then show ?thesis using Literal_Write_buffer [of h p b] by simp
next
  case (VertexPtr p)
  then show ?thesis using VertexDescription_Write_buffer [of h p b] by simp
next
  case (EdgePtr p)
  then show ?thesis using EdgeDescription_Write_buffer [of h p b] by simp
next
  case (GraphPtr p)
  then show ?thesis using gw [of h p b] by simp
qed

lemma body_loop_buffer:
  assumes gw: "\<And>h p b. gw h p b = prepend b (gw h p [])"
  shows "body_loop gw buffer_write body h b = prepend b (body_loop gw buffer_write body h [])"
proof (induction body arbitrary: h b)
  case Nil
  show ?case by simp
next
  case (Cons line rest)
  note el = Element_Write_buffer [of gw h line b, OF gw]
  show ?case
  proof (cases "Element_Write gw buffer_write h line []")
    case None
    with el show ?thesis by simp
  next
    case (Some t)
    obtain r h1 out1 where t: "t = (r, h1, out1)" by (cases t)
    show ?thesis
    proof (cases r)
      case Panic
      with Some t el show ?thesis by simp
    next
      case (Done err)
      show ?thesis
      proof (cases "err = None")
        case True
        have 1: "body_loop gw buffer_write (line # rest) h b
                   = body_loop gw buffer_write rest h1 (b @ out1 @ ''\<newline>'')"
          using Some t el Done True by (simp add: buffer_write_apply case_prod_beta)
        have 2: "body_loop gw buffer_write (line # rest) h []
                   = body_loop gw buffer_write rest h1 (out1 @ ''\<newline>'')"
          using Some t Done True by (simp add: buffer_write_apply case_prod_beta)
        have "body_loop gw buffer_write rest h1 (b @ out1 @ ''\<newline>'')
                = prepend (b @ out1 @ ''\<newline>'') (body_loop gw buffer_write rest h1 [])"
          by (rule Cons.IH)
        also have "\<dots> = prepend b (prepend (out1 @ ''\<newline>'') (body_loop gw buffer_write rest h1 []))"
          by (simp add: prepend_prepend)
        also have "\<dots> = prepend b (body_loop gw buffer_write rest h1 (out1 @ ''\<newline>''))"
          using Cons.IH [of h1 "out1 @ ''\<newline>''"] by simp
        finally show ?thesis unfolding 1 2 .
      next
        case False
        with Some t el Done show ?thesis by (simp add: buffer_write_apply case_prod_beta)
      qed
    qed
  qed
qed

lemma Write_body_buffer:
  assumes gw: "\<And>h p b. gw h p b = prepend b (gw h p [])"
  shows "Write_body gw buffer_write body h b = prepend b (Write_body gw buffer_write body h [])"
proof (cases "body_loop gw buffer_write body h []")
  case None
  with body_loop_buffer [of gw body h b, OF gw] show ?thesis by (simp add: Write_body_def)
next
  case (Some t)
  obtain r h1 out1 where t: "t = (r, h1, out1)" by (cases t)
  with Some body_loop_buffer [of gw body h b, OF gw] show ?thesis
    by (cases r) (simp_all add: Write_body_def buffer_write_apply case_prod_beta)
qed

lemma Graph_Write_buffer:
  "Graph_Write depth (buffer_write :: ('e, string) WriteString) h p b
     = prepend b (Graph_Write depth buffer_write h p [])"
proof (induction depth arbitrary: h p b)
  case 0
  show ?case by simp
next
  case (Suc depth)
  let ?bw = "buffer_write :: ('e, string) WriteString"
  have wb: "Write_body (Graph_Write depth ?bw) ?bw body h (b @ c)
              = prepend b (Write_body (Graph_Write depth ?bw) ?bw body h c)"
    for body h b c
  proof -
    have "Write_body (Graph_Write depth ?bw) ?bw body h (b @ c)
            = prepend (b @ c) (Write_body (Graph_Write depth ?bw) ?bw body h [])"
      by (rule Write_body_buffer [of "Graph_Write depth ?bw", OF Suc.IH])
    also have "\<dots> = prepend b (prepend c (Write_body (Graph_Write depth ?bw) ?bw body h []))"
      by (simp add: prepend_prepend)
    also have "prepend c (Write_body (Graph_Write depth ?bw) ?bw body h [])
        = Write_body (Graph_Write depth ?bw) ?bw body h c"
      by (rule Write_body_buffer [of "Graph_Write depth ?bw", OF Suc.IH, symmetric])
    finally show ?thesis .
  qed
  show ?case
  proof (cases "deref (graphs h) p")
    case None
    then show ?thesis by simp
  next
    case (Some g)
    show ?thesis
    proof (cases "Rank g = []")
      case True
      with Some wb [of "Body g" h b "title g"] show ?thesis
        by (simp add: buffer_write_apply case_prod_beta)
    next
      case False
      with Some wb [of "Body g" h b "title g @ ''rank'' @ ''=\"'' @ Rank g @ ''\"\<newline>''"]
      show ?thesis
        by (simp add: buffer_write_apply case_prod_beta)
    qed
  qed
qed

section \<open>The depth bound\<close>

text \<open>
  A result does not depend on the depth it was computed with: more depth gives the same
  result. A graph that holds itself has no result at any depth, as the Go program never
  returns from it.
\<close>

lemma Element_Write_mono:
  assumes "\<And>h p w r. gw h p w = Some r \<Longrightarrow> gw' h p w = Some r"
    and "Element_Write gw ws h line w = Some r"
  shows "Element_Write gw' ws h line w = Some r"
  using assms by (cases line) auto

lemma body_loop_mono:
  assumes gw: "\<And>h p w r. gw h p w = Some r \<Longrightarrow> gw' h p w = Some r"
  shows "body_loop gw ws body h w = Some r \<Longrightarrow> body_loop gw' ws body h w = Some r"
proof (induction body arbitrary: h w)
  case Nil
  then show ?case by simp
next
  case (Cons line rest)
  from Cons.prems obtain t where e: "Element_Write gw ws h line w = Some t"
    by (auto split: option.splits)
  from gw e have e': "Element_Write gw' ws h line w = Some t" by (rule Element_Write_mono)
  obtain r1 h1 w1 where t: "t = (r1, h1, w1)" by (cases t)
  show ?case
  proof (cases r1)
    case Panic
    with Cons.prems e e' t show ?thesis by simp
  next
    case (Done err)
    with Cons.prems e e' t Cons.IH show ?thesis
      by (auto simp: case_prod_beta split: if_splits)
  qed
qed

lemma Write_body_mono:
  assumes gw: "\<And>h p w r. gw h p w = Some r \<Longrightarrow> gw' h p w = Some r"
    and "Write_body gw ws body h w = Some r"
  shows "Write_body gw' ws body h w = Some r"
proof -
  from assms(2) obtain t where b: "body_loop gw ws body h w = Some t"
    by (auto simp: Write_body_def split: option.splits)
  from gw b have "body_loop gw' ws body h w = Some t" by (rule body_loop_mono)
  with b assms(2) show ?thesis by (simp add: Write_body_def)
qed

lemma Graph_Write_Suc:
  "Graph_Write depth ws h p w = Some r \<Longrightarrow> Graph_Write (Suc depth) ws h p w = Some r"
proof (induction depth arbitrary: h p w r)
  case 0
  then show ?case by simp
next
  case (Suc depth)
  have wb: "Write_body (Graph_Write (Suc depth) ws) ws body h w0 = Some r"
    if "Write_body (Graph_Write depth ws) ws body h w0 = Some r" for body w0
    using Suc.IH that by (rule Write_body_mono)
  show ?case
  proof (cases "deref (graphs h) p")
    case None
    with Suc.prems show ?thesis by simp
  next
    case (Some g)
    with Suc.prems show ?thesis
      by (subst Graph_Write.simps) (auto simp: case_prod_beta split: if_splits intro: wb)
  qed
qed

lemma Graph_Write_more_depth:
  "Graph_Write depth ws h p w = Some r \<Longrightarrow> Graph_Write (depth + k) ws h p w = Some r"
  by (induction k) (simp_all add: Graph_Write_Suc del: Graph_Write.simps)

lemma Graph_Write_cycle: "Graph_Write depth buffer_write self_store 0 b = None"
proof (induction depth arbitrary: b)
  case 0
  show ?case by simp
next
  case (Suc depth)
  have g: "deref (graphs self_store) 0
     = Some \<lparr>Name = ''G'', Body = [GraphPtr 0], IsSubGraph = False, Rank = []\<rparr>"
    by (simp add: self_store_def deref_def)
  show ?case
    by (simp add: g Suc.IH Write_body_def buffer_write_apply case_prod_beta)
qed

section \<open>A failing element in the body loop\<close>

lemma Graph_Write_failing_element:
  assumes g: "deref (graphs h) graph = Some g"
    and body: "Body g = pre @ line # rest"
    and title: "ws w (title g) = (None, w1)"
    and rank: \<open>(if Rank g \<noteq> [] then ws w1 (''rank'' @ ''="'' @ Rank g @ ''"\<newline>'') else (None, w1))
               = (None, w2)\<close>
    and pre: "body_loop (Graph_Write depth ws) ws pre h w2 = Some (None, h3, w3)"
    and elem: "Element_Write (Graph_Write depth ws) ws h3 line w3 = Some (Done (Some e), h4, w4)"
  shows "Graph_Write (Suc depth) ws h graph w = Some (Done (Some e), h, snd (ws w4 ''\<newline>''))"
proof -
  have gw: "\<And>h p w r h' w'. Graph_Write depth ws h p w = Some (r, h', w') \<Longrightarrow> h' = h"
    by (rule Graph_Write_store)
  from gw pre have h3: "h3 = h" by (rule body_loop_store)
  from gw elem have h4: "h4 = h3" by (rule Element_Write_store)
  have "body_loop (Graph_Write depth ws) ws (line # rest) h3 w3
          = Some (Some (Done (Some e)), h4, snd (ws w4 ''\<newline>''))"
    using elem by (simp add: case_prod_beta)
  with pre have "body_loop (Graph_Write depth ws) ws (Body g) h w2
          = Some (Some (Done (Some e)), h4, snd (ws w4 ''\<newline>''))"
    by (simp add: body body_loop_append)
  then have wb: "Write_body (Graph_Write depth ws) ws (Body g) h w2
          = Some (Done (Some e), h, snd (ws w4 ''\<newline>''))"
    by (simp add: Write_body_def h3 h4)
  show ?thesis
  proof (cases "Rank g = []")
    case True
    with rank have "w2 = w1" by simp
    with True g title wb show ?thesis by simp
  next
    case False
    with rank g title wb show ?thesis by simp
  qed
qed

section \<open>Pointers and copies\<close>

lemma assign_vertices_frame:
  "literals (assign_vertices h ms) = literals h"
  "edges (assign_vertices h ms) = edges h"
  "graphs (assign_vertices h ms) = graphs h"
  unfolding assign_vertices_def
  by (induction ms arbitrary: h) (simp_all add: assign_vertex_def case_prod_beta)

lemma deref_append_new: "deref (xs @ [x]) (length xs) = Some x"
  by (simp add: deref_def)

lemma append_Body_Done:
  assumes "append_Body h graph line = Done h'"
  shows "\<exists>g. deref (graphs h) graph = Some g
           \<and> deref (graphs h') graph = Some (g\<lparr>Body := Body g @ [line]\<rparr>)
           \<and> literals h' = literals h \<and> vertices h' = vertices h \<and> edges h' = edges h"
  using assms
  by (auto simp: append_Body_def deref_def split: option.splits if_splits)

section \<open>What a vertex and an edge write\<close>

text \<open>
  C3. A vertex whose eight string attributes are empty and whose \<open>Peripheries\<close> is zero
  is written as its ID, a space and an empty pair of brackets: that string is the one
  argument of the one stream write, whatever the stream answers, and a stream that accepts
  it holds exactly those bytes more.
\<close>

theorem VertexDescription_Write_unset:
  assumes "deref (vertices h) p = Some v"
    and "Label v = []" and "Group v = []" and "Color v = []" and "Style v = []"
    and "ColorScheme v = []" and "FontColor v = []" and "FontName v = []"
    and "Shape v = []" and "Peripheries v = 0"
  shows "VertexDescription_Write (ws :: ('e, 'w) WriteString) h p w
           = (Done (fst (ws w (ID v @ '' []''))), h, snd (ws w (ID v @ '' []'')))
         \<and> VertexDescription_Write (buffer_write :: ('e, string) WriteString) h p b
           = (Done None, h, b @ ID v @ '' []'')"
  using assms
  by (simp add: VertexDescription_Write_def nodeStr_unfold buffer_write_def split: prod.splits)

theorem VertexDescription_Write_unset_witness:
  "deref (vertices (one_vertex (NewVertexDescription ''a''))) 0 = Some (NewVertexDescription ''a'')
   \<and> Label (NewVertexDescription ''a'') = [] \<and> Group (NewVertexDescription ''a'') = []
   \<and> Color (NewVertexDescription ''a'') = [] \<and> Style (NewVertexDescription ''a'') = []
   \<and> ColorScheme (NewVertexDescription ''a'') = [] \<and> FontColor (NewVertexDescription ''a'') = []
   \<and> FontName (NewVertexDescription ''a'') = [] \<and> Shape (NewVertexDescription ''a'') = []
   \<and> Peripheries (NewVertexDescription ''a'') = 0
   \<and> VertexDescription_Write buffer_write (one_vertex (NewVertexDescription ''a'')) 0 ''x''
       = (Done (None :: io_error option), one_vertex (NewVertexDescription ''a''), ''xa []'')"
  using VertexDescription_Write_unset [of "one_vertex (NewVertexDescription ''a'')" 0
      "NewVertexDescription ''a''" "buffer_write :: (io_error, string) WriteString" "''x''" "''x''"]
  by (simp add: one_vertex_def deref_def NewVertexDescription_def buffer_write_def)

text \<open>
  C4. The string a vertex writes is its ID, a space, an opening bracket, then for each of
  the eight string attributes in declaration order its rendering in the specification's
  words under the lowercased field name (nothing when empty, unquoted when the value
  begins with \<open><\<close>, quoted otherwise), then what the loop adds for
  \<open>Peripheries\<close>, then the closing bracket.
\<close>

theorem VertexDescription_Write_string_attributes:
  assumes "deref (vertices h) p = Some v"
  shows "VertexDescription_Write ws h p w =
     (let s = ID v @ '' ['' @
            spec_string_attr ''label'' (Label v) @
            spec_string_attr ''group'' (Group v) @
            spec_string_attr ''color'' (Color v) @
            spec_string_attr ''style'' (Style v) @
            spec_string_attr ''colorscheme'' (ColorScheme v) @
            spec_string_attr ''fontcolor'' (FontColor v) @
            spec_string_attr ''fontname'' (FontName v) @
            spec_string_attr ''shape'' (Shape v) @
            field_attr (''Peripheries'', IntField (Peripheries v)) @ '']'';
          (err, w') = ws w s
      in (Done err, h, w'))"
  using assms
  by (simp add: VertexDescription_Write_def nodeStr_unfold field_attr_string ToLower_names
      del: field_attr.simps)

theorem VertexDescription_Write_string_attributes_witness:
  \<open>deref (vertices (one_vertex html_vertex)) 0 = Some html_vertex
   \<and> VertexDescription_Write buffer_write (one_vertex html_vertex) 0 []
       = (Done (None :: io_error option), one_vertex html_vertex,
          ''a [label=<b>x</b> color="red" ]'')\<close>
  using VertexDescription_Write_string_attributes [of "one_vertex html_vertex" 0 html_vertex
      "buffer_write :: (io_error, string) WriteString" "[]"]
  by (simp add: one_vertex_def deref_def html_vertex_def NewVertexDescription_def
      buffer_write_def spec_string_attr_def)

text \<open>
  C5. After what the loop has built for the eight string attributes, a vertex writes
  nothing for \<open>Peripheries\<close> when it is zero, and \<open>peripheries="N" \<close> for every
  other value, negative ones too, where \<open>N\<close> is the signed value in decimal: reading
  \<open>N\<close> back as a decimal numeral gives the value.
\<close>

theorem VertexDescription_Write_peripheries:
  assumes "deref (vertices h) p = Some v"
  shows \<open>VertexDescription_Write ws h p w =
     (let s = fields_loop ((ID v @ '' '') @ ''['') (take 8 (drop 1 (reflect_fields v))) @
            (if Peripheries v = 0 then []
             else ''peripheries="'' @ FormatInt (sint (Peripheries v)) @ ''" '') @ '']'';
          (err, w') = ws w s
      in (Done err, h, w'))
     \<and> decimal_value (FormatInt (sint (Peripheries v))) = sint (Peripheries v)\<close>
  using assms
  by (simp add: VertexDescription_Write_def nodeStr_def reflect_fields_def ToLower_names
      decimal_value_FormatInt del: field_attr.simps(1))

theorem VertexDescription_Write_peripheries_witness:
  \<open>deref (vertices (one_vertex ringed_vertex)) 0 = Some ringed_vertex
   \<and> VertexDescription_Write buffer_write (one_vertex ringed_vertex) 0 []
       = (Done (None :: io_error option), one_vertex ringed_vertex, ''a [peripheries="-2" ]'')
   \<and> decimal_value ''-2'' = - 2\<close>
  using VertexDescription_Write_peripheries [of "one_vertex ringed_vertex" 0 ringed_vertex
      "buffer_write :: (io_error, string) WriteString" "[]"]
  by (simp add: one_vertex_def deref_def ringed_vertex_def NewVertexDescription_def
      buffer_write_def reflect_fields_def FormatInt_minus_2)

text \<open>
  C6. An edge writes the ID of \<open>From\<close>, then \<open>->\<close> when directed and \<open>--\<close> when
  not, between single spaces, then the ID of \<open>To\<close>; nothing more when its style is
  empty, and otherwise the suffix \<open> [ style="<Style>" ]\<close> with the style as it is.
\<close>

theorem EdgeDescription_Write_format:
  assumes "deref (edges h) p = Some e"
  shows \<open>EdgeDescription_Write ws h p w =
     (let s = ID (From e) @ (if Directed e then '' -> '' else '' -- '') @ ID (To e) @
            (if EdgeStyle e = [] then [] else '' [ style="'' @ EdgeStyle e @ ''" ]'');
          (err, w') = ws w s
      in (Done err, h, w'))\<close>
  using assms by (simp add: EdgeDescription_Write_def edgeStr_def)

theorem EdgeDescription_Write_format_witness:
  \<open>deref (edges (one_edge styled_edge)) 0 = Some styled_edge
   \<and> EdgeDescription_Write buffer_write (one_edge styled_edge) 0 []
       = (Done (None :: io_error option), one_edge styled_edge, ''a -> b [ style="dashed" ]'')\<close>
  using EdgeDescription_Write_format [of "one_edge styled_edge" 0 styled_edge
      "buffer_write :: (io_error, string) WriteString" "[]"]
  by (simp add: one_edge_def deref_def styled_edge_def html_vertex_def NewVertexDescription_def
      buffer_write_def)

section \<open>What a graph writes\<close>

text \<open>
  C7. The top-level graph \<open>G\<close> with no rank and an empty body, written to a stream whose
  every write succeeds, makes two writes, the header line and the closing brace, and
  returns no error; a buffer holds exactly \<open>digraph G {\<close>, a line break and \<open>}\<close> more,
  with no line break at the end. Any depth of at least one is enough.
\<close>

theorem Graph_Write_empty:
  assumes "deref (graphs h) p = Some \<lparr>Name = ''G'', Body = [], IsSubGraph = False, Rank = []\<rparr>"
    and "\<And>w s. fst (ws w s) = None"
  shows "Graph_Write (Suc depth) (ws :: ('e, 'w) WriteString) h p w
           = Some (Done None, h, foldl (\<lambda>w s. snd (ws w s)) w [''digraph G {\<newline>'', ''}''])
         \<and> Graph_Write (Suc depth) (buffer_write :: ('e, string) WriteString) h p b
           = Some (Done None, h, b @ ''digraph G {\<newline>}'')"
  using assms
  by (simp add: title_def Write_body_def case_prod_beta buffer_write_def)

theorem Graph_Write_empty_witness:
  "deref (graphs empty_graph_store) 0 = Some \<lparr>Name = ''G'', Body = [], IsSubGraph = False, Rank = []\<rparr>
   \<and> (\<forall>w s. fst ((buffer_write :: (io_error, string) WriteString) w s) = None)
   \<and> Graph_Write 1 (buffer_write :: (io_error, string) WriteString) empty_graph_store 0 []
       = Some (Done None, empty_graph_store, ''digraph G {\<newline>}'')"
  using Graph_Write_empty [of empty_graph_store 0 "buffer_write :: (io_error, string) WriteString"
      0 "[]" "[]"]
  by (simp add: empty_graph_store_def deref_def NewGraph_def buffer_write_def)

text \<open>
  C2. The top-level graph \<open>G\<close> with rank \<open>same\<close> whose body is the one subgraph
  \<open>S\<close> (no rank of its own) whose body is the one vertex \<open>a\<close> with nothing but its ID
  set: written to a stream whose every write succeeds, it makes the eight writes listed,
  in this order, and returns no error; a buffer holds exactly their concatenation more.
  Any depth of at least two is enough.
\<close>

theorem Graph_Write_nested:
  assumes "deref (graphs h) g
             = Some \<lparr>Name = ''G'', Body = [GraphPtr s], IsSubGraph = False, Rank = ''same''\<rparr>"
    and "deref (graphs h) s
             = Some \<lparr>Name = ''S'', Body = [VertexPtr a], IsSubGraph = True, Rank = []\<rparr>"
    and "deref (vertices h) a = Some (NewVertexDescription ''a'')"
    and "\<And>w s. fst (ws w s) = None"
  shows \<open>Graph_Write (Suc (Suc depth)) (ws :: ('e, 'w) WriteString) h g w
           = Some (Done None, h, foldl (\<lambda>w s. snd (ws w s)) w
               [''digraph G {\<newline>'', ''rank="same"\<newline>'', ''subgraph S {\<newline>'', ''a []'',
                ''\<newline>'', ''}'', ''\<newline>'', ''}''])
         \<and> Graph_Write (Suc (Suc depth)) (buffer_write :: ('e, string) WriteString) h g b
           = Some (Done None, h,
               b @ ''digraph G {\<newline>rank="same"\<newline>subgraph S {\<newline>a []\<newline>}\<newline>}'')\<close>
  using assms
  by (simp add: title_def Write_body_def case_prod_beta buffer_write_def
      VertexDescription_Write_def nodeStr_unfold NewVertexDescription_def)

theorem Graph_Write_nested_witness:
  \<open>deref (graphs nested_store) 0
       = Some \<lparr>Name = ''G'', Body = [GraphPtr 1], IsSubGraph = False, Rank = ''same''\<rparr>
   \<and> deref (graphs nested_store) 1
       = Some \<lparr>Name = ''S'', Body = [VertexPtr 0], IsSubGraph = True, Rank = []\<rparr>
   \<and> deref (vertices nested_store) 0 = Some (NewVertexDescription ''a'')
   \<and> (\<forall>w s. fst ((buffer_write :: (io_error, string) WriteString) w s) = None)
   \<and> Graph_Write 2 (buffer_write :: (io_error, string) WriteString) nested_store 0 []
       = Some (Done None, nested_store,
            ''digraph G {\<newline>rank="same"\<newline>subgraph S {\<newline>a []\<newline>}\<newline>}'')\<close>
  using Graph_Write_nested [of nested_store 0 1 0
      "buffer_write :: (io_error, string) WriteString" 0 "[]" "[]"]
  by (simp add: nested_store_def deref_def buffer_write_def numeral_2_eq_2)

text \<open>
  C8. \<open>Graph.Write\<close> leaves every object as it was: whenever a call returns or panics,
  on any stream, the store after it is the store before it, so the name, body, subgraph
  flag and rank of every graph are the same. And a call on a buffer appends bytes that do
  not depend on what the buffer held, so a second call on the same graph right after the
  first returns the same result and appends the same bytes again.
\<close>

theorem Graph_Write_frame:
  "(Graph_Write depth ws h graph w = Some (r, h', w') \<longrightarrow> h' = h)
   \<and> (Graph_Write depth (buffer_write :: ('e, string) WriteString) h graph b
          = Some (r1, h1, out1) \<longrightarrow>
        h1 = h \<and> (\<exists>bytes. out1 = b @ bytes
          \<and> Graph_Write depth (buffer_write :: ('e, string) WriteString) h1 graph out1
              = Some (r1, h1, out1 @ bytes)))"
proof (intro conjI impI)
  assume "Graph_Write depth ws h graph w = Some (r, h', w')"
  then show "h' = h" by (rule Graph_Write_store)
next
  assume a: "Graph_Write depth (buffer_write :: ('e, string) WriteString) h graph b
               = Some (r1, h1, out1)"
  then show "h1 = h" by (rule Graph_Write_store)
next
  let ?bw = "buffer_write :: ('e, string) WriteString"
  assume a: "Graph_Write depth ?bw h graph b = Some (r1, h1, out1)"
  then have h1: "h1 = h" by (rule Graph_Write_store)
  from a have "prepend b (Graph_Write depth ?bw h graph []) = Some (r1, h1, out1)"
    by (simp add: Graph_Write_buffer [of depth h graph b])
  then obtain bytes where e: "Graph_Write depth ?bw h graph [] = Some (r1, h1, bytes)"
    and o: "out1 = b @ bytes"
    by (auto simp: prepend_def split: option.splits)
  have "Graph_Write depth ?bw h graph out1 = prepend out1 (Graph_Write depth ?bw h graph [])"
    by (rule Graph_Write_buffer)
  with e have "Graph_Write depth ?bw h graph out1 = Some (r1, h1, out1 @ bytes)"
    by simp
  with o h1 show "\<exists>bytes. out1 = b @ bytes
      \<and> Graph_Write depth ?bw h1 graph out1 = Some (r1, h1, out1 @ bytes)"
    by blast
qed


theorem Graph_Write_frame_witness:
  \<open>Graph_Write 2 scripted_write nested_store 0 ([], [Accept, Reject 0 ErrClosedPipe])
       = Some (Done (Some ErrClosedPipe), nested_store, (''digraph G {\<newline>'', []))
   \<and> Graph_Write 2 (buffer_write :: (io_error, string) WriteString) nested_store 0 []
       = Some (Done None, nested_store,
            ''digraph G {\<newline>rank="same"\<newline>subgraph S {\<newline>a []\<newline>}\<newline>}'')
   \<and> Graph_Write 2 (buffer_write :: (io_error, string) WriteString) nested_store 0
         ''digraph G {\<newline>rank="same"\<newline>subgraph S {\<newline>a []\<newline>}\<newline>}''
       = Some (Done None, nested_store,
            ''digraph G {\<newline>rank="same"\<newline>subgraph S {\<newline>a []\<newline>}\<newline>}'' @
            ''digraph G {\<newline>rank="same"\<newline>subgraph S {\<newline>a []\<newline>}\<newline>}'')\<close>
  using Graph_Write_frame [of 2 scripted_write nested_store 0
      "([], [Accept, Reject 0 ErrClosedPipe])" "Done (Some ErrClosedPipe)" nested_store
      "(''digraph G {\<newline>'', [])" "[]" "Done (None :: io_error option)" nested_store
      \<open>''digraph G {\<newline>rank="same"\<newline>subgraph S {\<newline>a []\<newline>}\<newline>}''\<close>]
  by (simp add: nested_store_def deref_def buffer_write_def numeral_2_eq_2 title_def
      Write_body_def VertexDescription_Write_def nodeStr_unfold NewVertexDescription_def)

section \<open>What an edge and a vertex in the body hold\<close>

text \<open>
  C9. \<open>AddEdge\<close> stores copies. When it finishes, both vertex pointers held a struct,
  the graph's body has a pointer to the new edge at its end, and after any run of
  assignments through vertex pointers (to the two endpoints or to any other vertex) the
  edge holds the two structs as they were at the call, and writes the string built from
  them. \<open>AddVertex\<close> stores the pointer. When it finishes, the graph's body has that
  pointer at its end, and after an assignment through it the vertex writes the string
  built from the struct assigned.
\<close>

theorem AddEdge_copies_AddVertex_aliases:
  "(AddEdge h graph v1 v2 directed style = Done h' \<longrightarrow>
      (\<exists>vfrom vto g. deref (vertices h) v1 = Some vfrom \<and> deref (vertices h) v2 = Some vto
         \<and> deref (graphs h) graph = Some g
         \<and> (\<forall>ms. deref (graphs (assign_vertices h' ms)) graph
                    = Some (g\<lparr>Body := Body g @ [EdgePtr (length (edges h))]\<rparr>)
              \<and> deref (edges (assign_vertices h' ms)) (length (edges h))
                    = Some \<lparr>From = vfrom, To = vto, Directed = directed, EdgeStyle = style\<rparr>
              \<and> EdgeDescription_Write ws (assign_vertices h' ms) (length (edges h)) w
                    = (let (err, w') = ws w (edgeStr \<lparr>From = vfrom, To = vto,
                                              Directed = directed, EdgeStyle = style\<rparr>)
                       in (Done err, assign_vertices h' ms, w')))))
   \<and> (AddVertex k graph0 v = Done k' \<longrightarrow>
      (\<exists>g. deref (graphs k) graph0 = Some g
         \<and> deref (graphs k') graph0 = Some (g\<lparr>Body := Body g @ [VertexPtr v]\<rparr>)
         \<and> (\<forall>vd. v < length (vertices k') \<longrightarrow>
               deref (graphs (assign_vertex k' v vd)) graph0
                 = Some (g\<lparr>Body := Body g @ [VertexPtr v]\<rparr>)
               \<and> VertexDescription_Write ws (assign_vertex k' v vd) v w
                 = (let (err, w') = ws w (nodeStr vd) in (Done err, assign_vertex k' v vd, w')))))"
proof (intro conjI impI)
  assume a: "AddEdge h graph v1 v2 directed style = Done h'"
  then obtain vfrom vto where f: "deref (vertices h) v1 = Some vfrom"
    and t: "deref (vertices h) v2 = Some vto"
    by (auto simp: AddEdge_def split: option.splits)
  let ?e = "\<lparr>From = vfrom, To = vto, Directed = directed, EdgeStyle = style\<rparr>"
  let ?h1 = "h\<lparr>edges := edges h @ [?e]\<rparr>"
  from a f t have ab: "append_Body ?h1 graph (EdgePtr (length (edges h))) = Done h'"
    by (simp add: AddEdge_def)
  from append_Body_Done [OF ab] obtain g where g: "deref (graphs h) graph = Some g"
    and g': "deref (graphs h') graph = Some (g\<lparr>Body := Body g @ [EdgePtr (length (edges h))]\<rparr>)"
    and e': "edges h' = edges h @ [?e]"
    by auto
  have "deref (edges (assign_vertices h' ms)) (length (edges h)) = Some ?e" for ms
    by (simp add: assign_vertices_frame e' deref_append_new)
  moreover have "deref (graphs (assign_vertices h' ms)) graph
      = Some (g\<lparr>Body := Body g @ [EdgePtr (length (edges h))]\<rparr>)" for ms
    by (simp add: assign_vertices_frame g')
  ultimately show "\<exists>vfrom vto g. deref (vertices h) v1 = Some vfrom
         \<and> deref (vertices h) v2 = Some vto
         \<and> deref (graphs h) graph = Some g
         \<and> (\<forall>ms. deref (graphs (assign_vertices h' ms)) graph
                    = Some (g\<lparr>Body := Body g @ [EdgePtr (length (edges h))]\<rparr>)
              \<and> deref (edges (assign_vertices h' ms)) (length (edges h))
                    = Some \<lparr>From = vfrom, To = vto, Directed = directed, EdgeStyle = style\<rparr>
              \<and> EdgeDescription_Write ws (assign_vertices h' ms) (length (edges h)) w
                    = (let (err, w') = ws w (edgeStr \<lparr>From = vfrom, To = vto,
                                              Directed = directed, EdgeStyle = style\<rparr>)
                       in (Done err, assign_vertices h' ms, w')))"
    using f t g by (simp add: EdgeDescription_Write_def)
next
  assume a: "AddVertex k graph0 v = Done k'"
  then have ab: "append_Body k graph0 (VertexPtr v) = Done k'" by (simp add: AddVertex_def)
  from append_Body_Done [OF ab] obtain g where g: "deref (graphs k) graph0 = Some g"
    and g': "deref (graphs k') graph0 = Some (g\<lparr>Body := Body g @ [VertexPtr v]\<rparr>)"
    by auto
  have "deref (graphs (assign_vertex k' v vd)) graph0
      = Some (g\<lparr>Body := Body g @ [VertexPtr v]\<rparr>)" for vd
    using g' by (simp add: assign_vertex_def)
  moreover have "VertexDescription_Write ws (assign_vertex k' v vd) v w
      = (let (err, w') = ws w (nodeStr vd) in (Done err, assign_vertex k' v vd, w'))"
    if "v < length (vertices k')" for vd
    using that by (simp add: VertexDescription_Write_def assign_vertex_def deref_def)
  ultimately show "\<exists>g. deref (graphs k) graph0 = Some g
         \<and> deref (graphs k') graph0 = Some (g\<lparr>Body := Body g @ [VertexPtr v]\<rparr>)
         \<and> (\<forall>vd. v < length (vertices k') \<longrightarrow>
               deref (graphs (assign_vertex k' v vd)) graph0
                 = Some (g\<lparr>Body := Body g @ [VertexPtr v]\<rparr>)
               \<and> VertexDescription_Write ws (assign_vertex k' v vd) v w
                 = (let (err, w') = ws w (nodeStr vd) in (Done err, assign_vertex k' v vd, w')))"
    using g g' by simp
qed

theorem AddEdge_copies_AddVertex_aliases_witness:
  \<open>AddVertex two_vertex_store 0 0 = Done vertex_added_store
   \<and> AddEdge vertex_added_store 0 0 1 True [] = Done edge_added_store
   \<and> 0 < length (vertices vertex_added_store)
   \<and> deref (edges (assign_vertices edge_added_store [(0, renamed_vertex)])) 0
       = Some \<lparr>From = NewVertexDescription ''a'', To = NewVertexDescription ''b'',
               Directed = True, EdgeStyle = []\<rparr>
   \<and> EdgeDescription_Write buffer_write (assign_vertices edge_added_store [(0, renamed_vertex)]) 0 []
       = (Done (None :: io_error option), assign_vertices edge_added_store [(0, renamed_vertex)],
          ''a -> b'')
   \<and> VertexDescription_Write buffer_write (assign_vertex vertex_added_store 0 renamed_vertex) 0 []
       = (Done (None :: io_error option), assign_vertex vertex_added_store 0 renamed_vertex,
          ''z [color="red" ]'')
   \<and> Graph_Write 1 buffer_write (assign_vertices edge_added_store [(0, renamed_vertex)]) 0 []
       = Some (Done (None :: io_error option),
            assign_vertices edge_added_store [(0, renamed_vertex)],
            ''digraph G {\<newline>z [color="red" ]\<newline>a -> b\<newline>}'')\<close>
  using AddEdge_copies_AddVertex_aliases [of vertex_added_store 0 0 1 True "[]" edge_added_store
      "buffer_write :: (io_error, string) WriteString" "[]" two_vertex_store 0 0
      vertex_added_store]
  by (simp add: two_vertex_store_def vertex_added_store_def edge_added_store_def
      renamed_vertex_def NewVertexDescription_def NewGraph_def AddVertex_def AddEdge_def
      append_Body_def deref_def assign_vertices_def assign_vertex_def buffer_write_def
      EdgeDescription_Write_def edgeStr_def VertexDescription_Write_def nodeStr_unfold
      title_def Write_body_def ToLower_names)

section \<open>Errors in the body loop\<close>

text \<open>
  C1, as stated, fails. With a comment in the body and a stream that accepts the header,
  fails the comment's write with \<open>ErrShortWrite\<close> and fails the line break's write with
  \<open>ErrClosedPipe\<close>, \<open>Graph.Write\<close> returns \<open>ErrShortWrite\<close>, the element's error.
\<close>

theorem Graph_Write_later_error_counterexample:
  "Literal_Write scripted_write comment_store 0
       (''digraph G {\<newline>'', [Reject 3 ErrShortWrite, Reject 0 ErrClosedPipe])
     = (Done (Some ErrShortWrite), comment_store,
        (''digraph G {\<newline>/* '', [Reject 0 ErrClosedPipe]))
   \<and> scripted_write (''digraph G {\<newline>/* '', [Reject 0 ErrClosedPipe]) ''\<newline>''
     = (Some ErrClosedPipe, (''digraph G {\<newline>/* '', []))
   \<and> Graph_Write 1 scripted_write comment_store 0
       ([], [Accept, Reject 3 ErrShortWrite, Reject 0 ErrClosedPipe])
     = Some (Done (Some ErrShortWrite), comment_store, (''digraph G {\<newline>/* '', []))"
  by (simp add: comment_store_def Literal_Write_def deref_def title_def Write_body_def)

text \<open>
  C1, amended. When the loop reaches an element of the body (the header and the rank line
  written, the elements before it and their line breaks written) and the element's write
  returns an error, \<open>Graph.Write\<close> returns that error, whatever the write of the line
  break answers: the earlier error wins.
\<close>

theorem Graph_Write_element_error_wins:
  assumes "deref (graphs h) graph = Some g"
    and "Body g = pre @ line # rest"
    and "ws w (title g) = (None, w1)"
    and \<open>(if Rank g \<noteq> [] then ws w1 (''rank'' @ ''="'' @ Rank g @ ''"\<newline>'') else (None, w1))
               = (None, w2)\<close>
    and "body_loop (Graph_Write depth ws) ws pre h w2 = Some (None, h3, w3)"
    and "Element_Write (Graph_Write depth ws) ws h3 line w3 = Some (Done (Some e), h4, w4)"
  shows "map_option fst (Graph_Write (Suc depth) ws h graph w) = Some (Done (Some e))"
  using Graph_Write_failing_element [OF assms] by simp

theorem Graph_Write_element_error_wins_witness:
  \<open>deref (graphs two_line_store) 0
       = Some \<lparr>Name = ''G'', Body = [LiteralPtr 0, LiteralPtr 1], IsSubGraph = False, Rank = ''same''\<rparr>
   \<and> Body \<lparr>Name = ''G'', Body = [LiteralPtr 0, LiteralPtr 1], IsSubGraph = False, Rank = ''same''\<rparr>
       = [LiteralPtr 0] @ LiteralPtr 1 # []
   \<and> scripted_write ([], [Accept, Accept, Accept, Accept, Reject 3 ErrShortWrite, Reject 0 ErrClosedPipe])
         (title \<lparr>Name = ''G'', Body = [LiteralPtr 0, LiteralPtr 1], IsSubGraph = False, Rank = ''same''\<rparr>)
       = (None, (''digraph G {\<newline>'', [Accept, Accept, Accept, Reject 3 ErrShortWrite, Reject 0 ErrClosedPipe]))
   \<and> scripted_write (''digraph G {\<newline>'', [Accept, Accept, Accept, Reject 3 ErrShortWrite, Reject 0 ErrClosedPipe])
         ''rank="same"\<newline>''
       = (None, (''digraph G {\<newline>rank="same"\<newline>'', [Accept, Accept, Reject 3 ErrShortWrite, Reject 0 ErrClosedPipe]))
   \<and> body_loop (Graph_Write 0 scripted_write) scripted_write [LiteralPtr 0] two_line_store
         (''digraph G {\<newline>rank="same"\<newline>'', [Accept, Accept, Reject 3 ErrShortWrite, Reject 0 ErrClosedPipe])
       = Some (None, two_line_store,
           (''digraph G {\<newline>rank="same"\<newline>\<newline>'', [Reject 3 ErrShortWrite, Reject 0 ErrClosedPipe]))
   \<and> Element_Write (Graph_Write 0 scripted_write) scripted_write two_line_store (LiteralPtr 1)
         (''digraph G {\<newline>rank="same"\<newline>\<newline>'', [Reject 3 ErrShortWrite, Reject 0 ErrClosedPipe])
       = Some (Done (Some ErrShortWrite), two_line_store,
           (''digraph G {\<newline>rank="same"\<newline>\<newline>/* '', [Reject 0 ErrClosedPipe]))
   \<and> fst (scripted_write (''digraph G {\<newline>rank="same"\<newline>\<newline>/* '', [Reject 0 ErrClosedPipe]) ''\<newline>'')
       = Some ErrClosedPipe
   \<and> map_option fst (Graph_Write 1 scripted_write two_line_store 0
         ([], [Accept, Accept, Accept, Accept, Reject 3 ErrShortWrite, Reject 0 ErrClosedPipe]))
       = Some (Done (Some ErrShortWrite))\<close>
  using Graph_Write_element_error_wins [of two_line_store 0
      \<open>\<lparr>Name = ''G'', Body = [LiteralPtr 0, LiteralPtr 1], IsSubGraph = False, Rank = ''same''\<rparr>\<close>
      "[LiteralPtr 0]" "LiteralPtr 1" "[]" scripted_write
      \<open>([], [Accept, Accept, Accept, Accept, Reject 3 ErrShortWrite, Reject 0 ErrClosedPipe])\<close>
      \<open>(''digraph G {\<newline>'', [Accept, Accept, Accept, Reject 3 ErrShortWrite, Reject 0 ErrClosedPipe])\<close>
      \<open>(''digraph G {\<newline>rank="same"\<newline>'', [Accept, Accept, Reject 3 ErrShortWrite, Reject 0 ErrClosedPipe])\<close>
      0 two_line_store
      \<open>(''digraph G {\<newline>rank="same"\<newline>\<newline>'', [Reject 3 ErrShortWrite, Reject 0 ErrClosedPipe])\<close>
      ErrShortWrite two_line_store
      \<open>(''digraph G {\<newline>rank="same"\<newline>\<newline>/* '', [Reject 0 ErrClosedPipe])\<close>]
  by (simp add: two_line_store_def Literal_Write_def deref_def title_def Write_body_def)

text \<open>
  When the element's write succeeds and only the write of the line break fails, the loop
  returns the element's error, which is \<open>nil\<close>: the stream's error is dropped, and the
  closing brace is not written.
\<close>

lemma Graph_Write_drops_line_break_error:
  "Graph_Write 1 scripted_write comment_store 0 ([], [Accept, Accept, Reject 0 ErrClosedPipe])
     = Some (Done None, comment_store, (''digraph G {\<newline>/* hello */'', []))"
  by (simp add: comment_store_def Literal_Write_def deref_def title_def Write_body_def)

text \<open>
  C10. When the loop reaches an element of the body and the element's write returns an
  error, the stream that \<open>Graph.Write\<close> leaves behind is the stream as the failing
  element left it, with its partial output, after one more write: that of the line break.
  Nothing is written after that, neither a further element nor the closing brace.
\<close>

theorem Graph_Write_line_break_after_error:
  assumes "deref (graphs h) graph = Some g"
    and "Body g = pre @ line # rest"
    and "ws w (title g) = (None, w1)"
    and \<open>(if Rank g \<noteq> [] then ws w1 (''rank'' @ ''="'' @ Rank g @ ''"\<newline>'') else (None, w1))
               = (None, w2)\<close>
    and "body_loop (Graph_Write depth ws) ws pre h w2 = Some (None, h3, w3)"
    and "Element_Write (Graph_Write depth ws) ws h3 line w3 = Some (Done (Some e), h4, w4)"
  shows "map_option (snd \<circ> snd) (Graph_Write (Suc depth) ws h graph w)
           = Some (snd (ws w4 ''\<newline>''))"
  using Graph_Write_failing_element [OF assms] by simp

theorem Graph_Write_line_break_after_error_witness:
  \<open>deref (graphs two_line_store) 0
       = Some \<lparr>Name = ''G'', Body = [LiteralPtr 0, LiteralPtr 1], IsSubGraph = False, Rank = ''same''\<rparr>
   \<and> Body \<lparr>Name = ''G'', Body = [LiteralPtr 0, LiteralPtr 1], IsSubGraph = False, Rank = ''same''\<rparr>
       = [LiteralPtr 0] @ LiteralPtr 1 # []
   \<and> scripted_write ([], [Accept, Accept, Accept, Accept, Reject 3 ErrShortWrite])
         (title \<lparr>Name = ''G'', Body = [LiteralPtr 0, LiteralPtr 1], IsSubGraph = False, Rank = ''same''\<rparr>)
       = (None, (''digraph G {\<newline>'', [Accept, Accept, Accept, Reject 3 ErrShortWrite]))
   \<and> scripted_write (''digraph G {\<newline>'', [Accept, Accept, Accept, Reject 3 ErrShortWrite])
         ''rank="same"\<newline>''
       = (None, (''digraph G {\<newline>rank="same"\<newline>'', [Accept, Accept, Reject 3 ErrShortWrite]))
   \<and> body_loop (Graph_Write 0 scripted_write) scripted_write [LiteralPtr 0] two_line_store
         (''digraph G {\<newline>rank="same"\<newline>'', [Accept, Accept, Reject 3 ErrShortWrite])
       = Some (None, two_line_store,
           (''digraph G {\<newline>rank="same"\<newline>\<newline>'', [Reject 3 ErrShortWrite]))
   \<and> Element_Write (Graph_Write 0 scripted_write) scripted_write two_line_store (LiteralPtr 1)
         (''digraph G {\<newline>rank="same"\<newline>\<newline>'', [Reject 3 ErrShortWrite])
       = Some (Done (Some ErrShortWrite), two_line_store,
           (''digraph G {\<newline>rank="same"\<newline>\<newline>/* '', []))
   \<and> Graph_Write 1 scripted_write two_line_store 0
         ([], [Accept, Accept, Accept, Accept, Reject 3 ErrShortWrite])
       = Some (Done (Some ErrShortWrite), two_line_store,
           (''digraph G {\<newline>rank="same"\<newline>\<newline>/* \<newline>'', []))\<close>
  using Graph_Write_line_break_after_error [of two_line_store 0
      \<open>\<lparr>Name = ''G'', Body = [LiteralPtr 0, LiteralPtr 1], IsSubGraph = False, Rank = ''same''\<rparr>\<close>
      "[LiteralPtr 0]" "LiteralPtr 1" "[]" scripted_write
      \<open>([], [Accept, Accept, Accept, Accept, Reject 3 ErrShortWrite])\<close>
      \<open>(''digraph G {\<newline>'', [Accept, Accept, Accept, Reject 3 ErrShortWrite])\<close>
      \<open>(''digraph G {\<newline>rank="same"\<newline>'', [Accept, Accept, Reject 3 ErrShortWrite])\<close>
      0 two_line_store
      \<open>(''digraph G {\<newline>rank="same"\<newline>\<newline>'', [Reject 3 ErrShortWrite])\<close>
      ErrShortWrite two_line_store
      \<open>(''digraph G {\<newline>rank="same"\<newline>\<newline>/* '', [])\<close>]
  by (simp add: two_line_store_def Literal_Write_def deref_def title_def Write_body_def)

end
